theory Spec2Isabelle
  imports Complex_Main
begin

section \<open>Python values\<close>

text \<open>
  A Python \<open>str\<close> is a sequence of Unicode code points, and \<open>len\<close> and slicing count
  code points. The messages of the bot contain characters outside ASCII, so a string is
  a list of code points; \<open>ascii\<close> embeds an ASCII literal.
\<close>

type_synonym pystr = "nat list"

definition ascii :: "string \<Rightarrow> pystr" where
  "ascii s = map of_char s"

text \<open>
  The values that flow through the pipeline are strings and \<open>None\<close>:
  \<open>pystr option\<close>, with \<open>None\<close> for Python's \<open>None\<close>. \<open>truthy\<close> is the test
  that \<open>if not x\<close> negates, \<open>format_value\<close> is what an f-string puts in place of
  \<open>{x}\<close>.
\<close>

definition truthy :: "pystr option \<Rightarrow> bool" where
  "truthy v = (case v of None \<Rightarrow> False | Some s \<Rightarrow> s \<noteq> [])"

definition format_value :: "pystr option \<Rightarrow> pystr" where
  "format_value v = (case v of None \<Rightarrow> ascii ''None'' | Some s \<Rightarrow> s)"

datatype exn =
  ClientConnectionError | TimeoutError | ContentTypeError | KeyError | IndexError
  | TypeError | Forbidden | HTTPException

section \<open>Effects: the trace of a run\<close>

datatype level = INFO | ERROR

datatype part = Lit string | StrArg pystr | IntArg int | ExnArg exn

record payload =
  model :: string
  messages :: "(string \<times> pystr) list"
  max_tokens :: nat
  temperature :: rat

record field =
  name :: pystr
  "value" :: pystr
  inline :: bool

record embed =
  title :: pystr
  description :: pystr
  color :: nat
  timestamp :: nat
  field_list :: "field list"
  footer_text :: pystr
  footer_icon_url :: string

datatype message = Text pystr | EmbedMsg embed

text \<open>\<open>NewsChannel\<close> is \<open>bot.get_channel(NEWS_CHANNEL_ID)\<close>, \<open>Ctx\<close> the context of a command.\<close>

datatype target = NewsChannel | Ctx

text \<open>
  Everything a run does to the outside is an event: a log record (an f-string is the
  list of its parts), a POST to the completion endpoint, a \<open>send\<close> that the platform
  accepted, a \<open>send\<close> that raised, and the start of the daily task.
\<close>

datatype event =
  Log level "part list"
  | HttpPost payload
  | Sent target message
  | SendFailed target message
  | StartTask

datatype 'a result = Return 'a | Raise exn

type_synonym 'a io = "'a result \<times> event list"

definition io_return :: "'a \<Rightarrow> 'a io" where
  "io_return v = (Return v, [])"

definition io_raise :: "exn \<Rightarrow> 'a io" where
  "io_raise e = (Raise e, [])"

text \<open>Sequencing: an exception skips the rest; the events of both parts are kept in order.\<close>

definition io_bind :: "'a io \<Rightarrow> ('a \<Rightarrow> 'b io) \<Rightarrow> 'b io" where
  "io_bind m f =
     (case m of
        (Raise e, t) \<Rightarrow> (Raise e, t)
      | (Return v, t) \<Rightarrow> (case f v of (r, t') \<Rightarrow> (r, t @ t')))"

text \<open>\<open>try: m except Exception as e: h e\<close>.\<close>

definition try_except :: "'a io \<Rightarrow> (exn \<Rightarrow> 'a io) \<Rightarrow> 'a io" where
  "try_except m h =
     (case m of
        (Raise e, t) \<Rightarrow> (case h e of (r, t') \<Rightarrow> (r, t @ t'))
      | (Return v, t) \<Rightarrow> (Return v, t))"

definition log :: "level \<Rightarrow> part list \<Rightarrow> unit io" where
  "log l ps = (Return (), [Log l ps])"

section \<open>The outside world\<close>

text \<open>
  What the completion endpoint answers: the POST raises (connection error, timeout), or
  a response arrives. \<open>content\<close> is the outcome of
  \<open>(await response.json())['choices'][0]['message']['content']\<close>: an exception (the body
  is not JSON, a key or an index is missing) or the value found there, a string or
  JSON \<open>null\<close>.
\<close>

record response =
  status :: int
  content :: "exn + pystr option"

datatype http_outcome = Fails exn | Responds response

text \<open>
  One run sees one world: whether the news channel resolves, what the endpoint answers to
  each request, which messages the platform refuses (\<open>send\<close> raises), and the clock.
\<close>

record world =
  channel_found :: bool
  session_post :: "payload \<Rightarrow> http_outcome"
  send_raises :: "target \<Rightarrow> message \<Rightarrow> exn option"
  utcnow :: nat

definition post :: "world \<Rightarrow> payload \<Rightarrow> response io" where
  "post w p =
     (case session_post w p of
        Fails e \<Rightarrow> (Raise e, [HttpPost p])
      | Responds r \<Rightarrow> (Return r, [HttpPost p]))"

definition json_content :: "response \<Rightarrow> pystr option io" where
  "json_content r = (case content r of Inl e \<Rightarrow> io_raise e | Inr v \<Rightarrow> io_return v)"

definition send :: "world \<Rightarrow> target \<Rightarrow> message \<Rightarrow> unit io" where
  "send w tgt msg =
     (case send_raises w tgt msg of
        None \<Rightarrow> (Return (), [Sent tgt msg])
      | Some e \<Rightarrow> (Raise e, [SendFailed tgt msg]))"

section \<open>PerplexityAPI\<close>

definition indent :: string where
  "indent = ''        ''"

definition nl :: string where
  "nl = [CHR 0x0A]"

definition news_prompt :: pystr where
  "news_prompt = ascii (concat
     [nl,
      indent, ''Find the most important gaming industry news from the last 24 hours. '', nl,
      indent, ''Focus on:'', nl,
      indent, ''- Major game releases or announcements'', nl,
      indent, ''- Industry acquisitions or partnerships  '', nl,
      indent, ''- Developer news and studio updates'', nl,
      indent, ''- Gaming platform updates (Steam, Epic, PlayStation, Xbox)'', nl,
      indent, ''- Esports major events'', nl,
      indent, nl,
      indent, ''Provide 3-5 key stories with sources and brief summaries.'', nl,
      indent, ''Format as clear bullet points.'', nl,
      indent])"

definition news_payload :: payload where
  "news_payload =
     \<lparr>model = ''sonar-pro'', messages = [(''user'', news_prompt)],
      max_tokens = 800, temperature = 3 / 10\<rparr>"

definition fetch_gaming_news :: "world \<Rightarrow> pystr option io" where
  "fetch_gaming_news w =
     try_except
       (io_bind (post w news_payload) (\<lambda>response.
          if status response = 200 then json_content response
          else io_bind (log ERROR [Lit ''Perplexity API error: '', IntArg (status response)])
                 (\<lambda>_. io_return None)))
       (\<lambda>e. io_bind (log ERROR [Lit ''Error fetching news: '', ExnArg e])
                 (\<lambda>_. io_return None))"

definition fact_check_prompt :: "pystr option \<Rightarrow> pystr" where
  "fact_check_prompt content' =
     ascii (concat
       [nl,
        indent, ''Please fact-check the following gaming industry news content.'', nl,
        indent, ''Identify any potential inaccuracies, verify key claims, and assess credibility.'', nl,
        indent, nl,
        indent, ''Content to check: ''])
     @ format_value content'
     @ ascii (concat
       [nl,
        indent, nl,
        indent, ''Provide:'', nl,
        indent, ''1. Overall credibility assessment (High/Medium/Low)  '', nl,
        indent, ''2. Any questionable claims that need verification'', nl,
        indent, ''3. Confidence level in the information (1-10)'', nl,
        indent, ''4. Keep response concise and under 400 characters'', nl,
        indent])"

definition fact_check_payload :: "pystr option \<Rightarrow> payload" where
  "fact_check_payload content' =
     \<lparr>model = ''sonar-pro'', messages = [(''user'', fact_check_prompt content')],
      max_tokens = 400, temperature = 1 / 10\<rparr>"

text \<open>The two strings that \<open>fact_check_content\<close> returns in place of an assessment.\<close>

definition verification_unavailable :: pystr where
  "verification_unavailable =
     0x2705 # ascii '' Content appears factual (verification unavailable)''"

definition fact_check_unavailable :: pystr where
  "fact_check_unavailable =
     0x2705 # ascii '' Content appears factual (fact-check unavailable)''"

definition fact_check_content :: "world \<Rightarrow> pystr option \<Rightarrow> pystr option io" where
  "fact_check_content w content' =
     try_except
       (io_bind (post w (fact_check_payload content')) (\<lambda>response.
          if status response = 200 then json_content response
          else io_return (Some verification_unavailable)))
       (\<lambda>e. io_bind (log ERROR [Lit ''Error fact-checking: '', ExnArg e])
                 (\<lambda>_. io_return (Some fact_check_unavailable)))"

section \<open>GamingNewsBot\<close>

text \<open>\<open>len(None)\<close> raises \<open>TypeError\<close>.\<close>

definition py_len :: "pystr option \<Rightarrow> nat io" where
  "py_len v = (case v of None \<Rightarrow> io_raise TypeError | Some s \<Rightarrow> io_return (length s))"

text \<open>
  \<open>x[:n] + "..." if len(x) > n else x\<close>: the condition is evaluated first, the slice only
  when it holds.
\<close>

definition clipped :: "nat \<Rightarrow> pystr option \<Rightarrow> pystr io" where
  "clipped n x =
     io_bind (py_len x) (\<lambda>l.
       if l > n then io_return (take n (the x) @ ascii ''...'') else io_return (the x))"

definition create_news_embed :: "world \<Rightarrow> pystr option \<Rightarrow> pystr option \<Rightarrow> embed io" where
  "create_news_embed w news_content fact_check_result =
     io_bind (clipped 1000 news_content) (\<lambda>v1.
     io_bind (clipped 500 fact_check_result) (\<lambda>v2.
       io_return
         \<lparr>title = 0x1F3AE # ascii '' Daily Gaming Industry News'',
          description = ascii ''Latest verified gaming news with AI fact-checking'',
          color = 0x00ff00,
          timestamp = utcnow w,
          field_list =
            [\<lparr>name = 0x1F4F0 # ascii '' Today'' @ [0x27] @ ascii ''s Gaming News'',
              value = v1, inline = False\<rparr>,
             \<lparr>name = 0x2705 # ascii '' Fact-Check Results'',
              value = v2, inline = False\<rparr>],
          footer_text = ascii ''Powered by Perplexity AI | Gaming News Bot'',
          footer_icon_url = ''https://cdn.discordapp.com/embed/avatars/0.png''\<rparr>))"

definition fetch_failure_notice :: pystr where
  "fetch_failure_notice =
     0x274C # ascii '' Unable to fetch gaming news today. Please try again later.''"

definition generic_error_notice :: pystr where
  "generic_error_notice =
     0x274C # ascii '' An error occurred while fetching today'' @ [0x27] @ ascii ''s gaming news.''"

definition post_daily_news :: "world \<Rightarrow> unit io" where
  "post_daily_news w =
     try_except
       (if \<not> channel_found w then log ERROR [Lit ''News channel not found'']
        else
          io_bind (log INFO [Lit ''Fetching gaming news...'']) (\<lambda>_.
          io_bind (fetch_gaming_news w) (\<lambda>news_content.
            if \<not> truthy news_content then send w NewsChannel (Text fetch_failure_notice)
            else
              io_bind (log INFO [Lit ''Fact-checking news content...'']) (\<lambda>_.
              io_bind (fact_check_content w news_content) (\<lambda>fact_check_result.
              io_bind (create_news_embed w news_content fact_check_result) (\<lambda>embed.
              io_bind (send w NewsChannel (EmbedMsg embed)) (\<lambda>_.
              log INFO [Lit ''Daily gaming news posted successfully''])))))))
       (\<lambda>e. io_bind (log ERROR [Lit ''Error posting daily news: '', ExnArg e]) (\<lambda>_.
            if channel_found w then send w NewsChannel (Text generic_error_notice)
            else io_return ()))"

section \<open>Tasks and commands\<close>

definition daily_gaming_news :: "world \<Rightarrow> unit io" where
  "daily_gaming_news w =
     io_bind (log INFO [Lit ''Running daily gaming news task'']) (\<lambda>_. post_daily_news w)"

text \<open>
  Modelled from the spec: the daily task is a \<open>Loop\<close> object of \<open>discord.ext.tasks\<close>,
  whose code is not in the repository. Of that object the handler below uses
  \<open>is_running()\<close> and \<open>start()\<close>; the spec gives the scheduler the two states Idle (not
  yet started) and Armed (running), and \<open>start\<close> takes it to Armed. Each call of
  \<open>start\<close> is recorded as a \<open>StartTask\<close> event.
\<close>

datatype schedule_state = Idle | Armed

definition is_running :: "schedule_state \<Rightarrow> bool" where
  "is_running s = (s = Armed)"

definition start :: "schedule_state \<Rightarrow> schedule_state io" where
  "start s = (Return Armed, [StartTask])"

text \<open>\<open>bot_user\<close> is \<open>str(bot.user)\<close>, \<open>guilds\<close> is \<open>len(bot.guilds)\<close>.\<close>

definition on_ready :: "pystr \<Rightarrow> nat \<Rightarrow> schedule_state \<Rightarrow> schedule_state io" where
  "on_ready bot_user guilds s =
     io_bind (log INFO [StrArg bot_user, Lit '' has connected to Discord!'']) (\<lambda>_.
     io_bind (log INFO [Lit ''Bot is in '', IntArg (int guilds), Lit '' guilds'']) (\<lambda>_.
       if \<not> is_running s then
         io_bind (start s) (\<lambda>s'.
         io_bind (log INFO [Lit ''Daily gaming news task started'']) (\<lambda>_.
         io_return s'))
       else io_return s))"

text \<open>The host platform delivers the connection-ready signal \<open>n\<close> times in a row.\<close>

fun ready_signals :: "pystr \<Rightarrow> nat \<Rightarrow> nat \<Rightarrow> schedule_state \<Rightarrow> schedule_state io" where
  "ready_signals bot_user guilds 0 s = io_return s"
| "ready_signals bot_user guilds (Suc n) s =
     io_bind (on_ready bot_user guilds s) (ready_signals bot_user guilds n)"

definition test_ack :: pystr where
  "test_ack = 0x1F504 # ascii '' Fetching test gaming news...''"

definition permission_denied_notice :: pystr where
  "permission_denied_notice =
     0x274C # ascii '' You need administrator permissions to use this command.''"

text \<open>\<open>administrator\<close> is \<open>ctx.author.guild_permissions.administrator\<close>.\<close>

definition test_news :: "world \<Rightarrow> bool \<Rightarrow> unit io" where
  "test_news w administrator =
     (if administrator then
        io_bind (send w Ctx (Text test_ack)) (\<lambda>_. post_daily_news w)
      else send w Ctx (Text permission_denied_notice))"

text \<open>
  Modelled from the spec: \<open>daily_gaming_news.next_iteration\<close>, which \<open>bot_status\<close> reads,
  is computed inside \<open>discord.ext.tasks\<close> from the \<open>time(hour, minute)\<close> given to
  \<open>tasks.loop\<close>; that code is not in the repository. The spec's \<open>next_fire()\<close> is absent
  while the scheduler is Idle and otherwise today's or tomorrow's occurrence of the
  configured hour:minute in UTC, whichever is soonest and still ahead of the time of
  evaluation. Timestamps are seconds since the epoch, days have 86400 seconds.
\<close>

definition fire_second :: "nat \<Rightarrow> nat \<Rightarrow> nat" where
  "fire_second h m = h * 3600 + m * 60"

definition next_fire :: "nat \<Rightarrow> nat \<Rightarrow> schedule_state \<Rightarrow> nat \<Rightarrow> nat option" where
  "next_fire h m s now =
     (case s of
        Idle \<Rightarrow> None
      | Armed \<Rightarrow>
          (let today = (now div 86400) * 86400 + fire_second h m
           in if now < today then Some today else Some (today + 86400)))"

section \<open>Observations on a trace\<close>

text \<open>The requests that reached the completion endpoint.\<close>

fun provider_calls :: "event list \<Rightarrow> payload list" where
  "provider_calls [] = []"
| "provider_calls (HttpPost p # t) = p # provider_calls t"
| "provider_calls (_ # t) = provider_calls t"

text \<open>The messages handed to \<open>send\<close> of the news channel, accepted or not.\<close>

fun attempted :: "event list \<Rightarrow> message list" where
  "attempted [] = []"
| "attempted (Sent NewsChannel m # t) = m # attempted t"
| "attempted (SendFailed NewsChannel m # t) = m # attempted t"
| "attempted (_ # t) = attempted t"

text \<open>The messages that the news channel received.\<close>

fun delivered :: "event list \<Rightarrow> message list" where
  "delivered [] = []"
| "delivered (Sent NewsChannel m # t) = m # delivered t"
| "delivered (_ # t) = delivered t"

text \<open>The two body fields of a message, when it is a report.\<close>

fun body_fields :: "message \<Rightarrow> pystr list" where
  "body_fields (EmbedMsg e) = map value (field_list e)"
| "body_fields (Text s) = []"

text \<open>
  A call of the client fails when the POST raises, when the status is not 200, or when
  the content cannot be read from the body of a 200 response.
\<close>

definition non_200 :: "http_outcome \<Rightarrow> bool" where
  "non_200 reply = (case reply of Fails e \<Rightarrow> False | Responds r \<Rightarrow> status r \<noteq> 200)"

definition failed :: "http_outcome \<Rightarrow> bool" where
  "failed reply =
     (case reply of Fails e \<Rightarrow> True | Responds r \<Rightarrow> status r \<noteq> 200 \<or> isl (content r))"

section \<open>Concrete worlds\<close>

definition accepts_all :: "target \<Rightarrow> message \<Rightarrow> exn option" where
  "accepts_all tgt msg = None"

definition refuses_all :: "target \<Rightarrow> message \<Rightarrow> exn option" where
  "refuses_all tgt msg = Some Forbidden"

text \<open>
  A world in which the endpoint answers the news request (the one that asks for 800
  tokens) with \<open>news_reply\<close> and every other request with \<open>fact_reply\<close>.
\<close>

definition test_world ::
  "bool \<Rightarrow> http_outcome \<Rightarrow> http_outcome \<Rightarrow> (target \<Rightarrow> message \<Rightarrow> exn option) \<Rightarrow> world" where
  "test_world found news_reply fact_reply refusals =
     \<lparr>channel_found = found,
      session_post = (\<lambda>p. if max_tokens p = 800 then news_reply else fact_reply),
      send_raises = refusals,
      utcnow = 1757000000\<rparr>"

definition ok :: "pystr \<Rightarrow> http_outcome" where
  "ok s = Responds \<lparr>status = 200, content = Inr (Some s)\<rparr>"

definition unavailable :: http_outcome where
  "unavailable = Responds \<lparr>status = 503, content = Inl ContentTypeError\<rparr>"

definition some_news :: pystr where
  "some_news = ascii ''- Studio ships patch (source: example.org)''"

definition some_check :: pystr where
  "some_check = ascii ''Credibility: High. Confidence: 8''"

section \<open>The combinators\<close>

lemma io_bind_Return [simp]: "io_bind (Return v, t) f = (fst (f v), t @ snd (f v))"
  by (simp add: io_bind_def split: prod.splits)

lemma io_bind_Raise [simp]: "io_bind (Raise e, t) f = (Raise e, t)"
  by (simp add: io_bind_def)

lemma try_except_Return [simp]: "try_except (Return v, t) h = (Return v, t)"
  by (simp add: try_except_def)

lemma try_except_Raise [simp]: "try_except (Raise e, t) h = (fst (h e), t @ snd (h e))"
  by (simp add: try_except_def split: prod.splits)

lemma io_bind_io_return [simp]: "io_bind (io_return v) f = f v"
  by (simp add: io_return_def)

lemma io_bind_log [simp]: "io_bind (log l ps) f = (fst (f ()), Log l ps # snd (f ()))"
  by (simp add: log_def)

lemma length_ascii [simp]: "length (ascii s) = length s"
  by (simp add: ascii_def)

lemma ascii_eq_iff [simp]: "ascii s = ascii t \<longleftrightarrow> s = t"
  by (simp add: ascii_def inj_of_char)

section \<open>The Completion Provider Client\<close>

lemma fetch_gaming_news_fails:
  "session_post w news_payload = Fails e \<Longrightarrow>
   fetch_gaming_news w =
     (Return None, [HttpPost news_payload, Log ERROR [Lit ''Error fetching news: '', ExnArg e]])"
  by (simp add: fetch_gaming_news_def post_def log_def io_return_def)

lemma fetch_gaming_news_status:
  "session_post w news_payload = Responds r \<Longrightarrow> status r \<noteq> 200 \<Longrightarrow>
   fetch_gaming_news w =
     (Return None,
      [HttpPost news_payload, Log ERROR [Lit ''Perplexity API error: '', IntArg (status r)]])"
  by (simp add: fetch_gaming_news_def post_def log_def io_return_def)

lemma fetch_gaming_news_malformed:
  "session_post w news_payload = Responds r \<Longrightarrow> status r = 200 \<Longrightarrow> content r = Inl e \<Longrightarrow>
   fetch_gaming_news w =
     (Return None, [HttpPost news_payload, Log ERROR [Lit ''Error fetching news: '', ExnArg e]])"
  by (simp add: fetch_gaming_news_def post_def json_content_def log_def io_return_def io_raise_def)

lemma fetch_gaming_news_content:
  "session_post w news_payload = Responds r \<Longrightarrow> status r = 200 \<Longrightarrow> content r = Inr v \<Longrightarrow>
   fetch_gaming_news w = (Return v, [HttpPost news_payload])"
  by (simp add: fetch_gaming_news_def post_def json_content_def io_return_def)

lemma fact_check_content_fails:
  "session_post w (fact_check_payload c) = Fails e \<Longrightarrow>
   fact_check_content w c =
     (Return (Some fact_check_unavailable),
      [HttpPost (fact_check_payload c), Log ERROR [Lit ''Error fact-checking: '', ExnArg e]])"
  by (simp add: fact_check_content_def post_def log_def io_return_def)

lemma fact_check_content_status:
  "session_post w (fact_check_payload c) = Responds r \<Longrightarrow> status r \<noteq> 200 \<Longrightarrow>
   fact_check_content w c =
     (Return (Some verification_unavailable), [HttpPost (fact_check_payload c)])"
  by (simp add: fact_check_content_def post_def io_return_def)

lemma fact_check_content_malformed:
  "session_post w (fact_check_payload c) = Responds r \<Longrightarrow> status r = 200 \<Longrightarrow>
   content r = Inl e \<Longrightarrow>
   fact_check_content w c =
     (Return (Some fact_check_unavailable),
      [HttpPost (fact_check_payload c), Log ERROR [Lit ''Error fact-checking: '', ExnArg e]])"
  by (simp add: fact_check_content_def post_def json_content_def log_def io_return_def io_raise_def)

lemma fact_check_content_content:
  "session_post w (fact_check_payload c) = Responds r \<Longrightarrow> status r = 200 \<Longrightarrow>
   content r = Inr v \<Longrightarrow>
   fact_check_content w c = (Return v, [HttpPost (fact_check_payload c)])"
  by (simp add: fact_check_content_def post_def json_content_def io_return_def)

lemma fetch_gaming_news_trace:
  "\<exists>v l. fetch_gaming_news w = (Return v, HttpPost news_payload # l)
     \<and> (l = [] \<or> (\<exists>ps. l = [Log ERROR ps]))"
proof (cases "session_post w news_payload")
  case (Fails e)
  then show ?thesis by (simp add: fetch_gaming_news_fails)
next
  case (Responds r)
  show ?thesis
  proof (cases "status r = 200")
    case True
    then show ?thesis using Responds
      by (cases "content r") (simp_all add: fetch_gaming_news_malformed fetch_gaming_news_content)
  next
    case False
    then show ?thesis using Responds by (simp add: fetch_gaming_news_status)
  qed
qed

lemma fact_check_content_trace:
  "\<exists>v l. fact_check_content w c = (Return v, HttpPost (fact_check_payload c) # l)
     \<and> (l = [] \<or> (\<exists>ps. l = [Log ERROR ps]))"
proof (cases "session_post w (fact_check_payload c)")
  case (Fails e)
  then show ?thesis by (simp add: fact_check_content_fails)
next
  case (Responds r)
  show ?thesis
  proof (cases "status r = 200")
    case True
    then show ?thesis using Responds
      by (cases "content r") (simp_all add: fact_check_content_malformed fact_check_content_content)
  next
    case False
    then show ?thesis using Responds by (simp add: fact_check_content_status)
  qed
qed

lemma fact_check_content_failed:
  assumes "session_post w (fact_check_payload c) = reply" and "failed reply"
  shows "\<exists>l. fact_check_content w c =
      (Return (Some (if non_200 reply then verification_unavailable else fact_check_unavailable)),
       HttpPost (fact_check_payload c) # l)
     \<and> (l = [] \<or> (\<exists>ps. l = [Log ERROR ps]))"
proof (cases reply)
  case (Fails e)
  then show ?thesis using assms(1) by (simp add: fact_check_content_fails non_200_def)
next
  case (Responds r)
  show ?thesis
  proof (cases "status r = 200")
    case True
    with assms(2) Responds obtain e where "content r = Inl e"
      by (cases "content r") (simp_all add: failed_def)
    then show ?thesis using assms(1) Responds True
      by (simp add: fact_check_content_malformed non_200_def)
  next
    case False
    then show ?thesis using assms(1) Responds
      by (simp add: fact_check_content_status non_200_def)
  qed
qed

section \<open>Traces\<close>

lemma provider_calls_append [simp]:
  "provider_calls (t @ u) = provider_calls t @ provider_calls u"
  by (induction t rule: provider_calls.induct) simp_all

lemma attempted_append [simp]: "attempted (t @ u) = attempted t @ attempted u"
  by (induction t rule: attempted.induct) simp_all

lemma delivered_append [simp]: "delivered (t @ u) = delivered t @ delivered u"
  by (induction t rule: delivered.induct) simp_all

section \<open>The concrete worlds\<close>

lemma max_tokens_news_payload [simp]: "max_tokens news_payload = 800"
  by (simp add: news_payload_def)

lemma max_tokens_fact_check_payload [simp]: "max_tokens (fact_check_payload c) = 400"
  by (simp add: fact_check_payload_def)

lemma session_post_test_world [simp]:
  "session_post (test_world found nr fr rf) news_payload = nr"
  "session_post (test_world found nr fr rf) (fact_check_payload c) = fr"
  by (simp_all add: test_world_def)

lemma test_world_sel [simp]:
  "channel_found (test_world found nr fr rf) = found"
  "send_raises (test_world found nr fr rf) = rf"
  "utcnow (test_world found nr fr rf) = 1757000000"
  by (simp_all add: test_world_def)

lemma fetch_gaming_news_ok [simp]:
  "fetch_gaming_news (test_world found (ok s) fr rf) = (Return (Some s), [HttpPost news_payload])"
  by (simp add: fetch_gaming_news_content [where r = "\<lparr>status = 200, content = Inr (Some s)\<rparr>"]
      ok_def)

lemma fetch_gaming_news_unavailable [simp]:
  "fetch_gaming_news (test_world found unavailable fr rf) =
     (Return None, [HttpPost news_payload, Log ERROR [Lit ''Perplexity API error: '', IntArg 503]])"
  by (simp add: fetch_gaming_news_status [where r = "\<lparr>status = 503, content = Inl ContentTypeError\<rparr>"]
      unavailable_def)

lemma some_news_not_empty [simp]: "some_news \<noteq> []" "length some_news = 42"
  by (simp_all add: some_news_def ascii_def)

lemma fallbacks_differ: "fact_check_unavailable \<noteq> verification_unavailable"
  by (simp add: fact_check_unavailable_def verification_unavailable_def)

lemma length_fallbacks [simp]:
  "length verification_unavailable = 52" "length fact_check_unavailable = 50"
  by (simp_all add: fact_check_unavailable_def verification_unavailable_def)

section \<open>The Presentation Formatter\<close>

lemma create_news_embed_Some:
  "\<exists>e. create_news_embed w (Some n) (Some f) = (Return e, [])"
  by (simp add: create_news_embed_def clipped_def py_len_def io_return_def)

lemma create_news_embed_None:
  "create_news_embed w (Some n) None = (Raise TypeError, [])"
  by (simp add: create_news_embed_def clipped_def py_len_def io_return_def io_raise_def)

lemma create_news_embed_fields:
  "create_news_embed w (Some n) (Some f) = (Return e, t) \<Longrightarrow>
   body_fields (EmbedMsg e) =
     [if length n \<le> 1000 then n else take 1000 n @ ascii ''...'',
      if length f \<le> 500 then f else take 500 f @ ascii ''...'']"
  by (auto simp add: create_news_embed_def clipped_def py_len_def io_return_def)

text \<open>
  C2: for every news text, body field 1 of the formatted report is the text unchanged
  when it has at most 1000 characters, and its first 1000 characters followed by the
  ellipsis otherwise; body field 2 is the fact-check text under the same rule at 500.
\<close>

theorem create_news_embed_truncation:
  "\<exists>e. create_news_embed w (Some news) (Some chk) = (Return e, [])
     \<and> map value (field_list e) =
         [if length news \<le> 1000 then news else take 1000 news @ ascii ''...'',
          if length chk \<le> 500 then chk else take 500 chk @ ascii ''...'']"
  by (simp add: create_news_embed_def clipped_def py_len_def io_return_def)

theorem create_news_embed_truncation_witness:
  "\<exists>e. create_news_embed (test_world True unavailable unavailable accepts_all)
          (Some (replicate 1001 65)) (Some (replicate 500 66)) = (Return e, [])
     \<and> map value (field_list e) = [replicate 1000 65 @ ascii ''...'', replicate 500 66]"
  using create_news_embed_truncation
    [of "test_world True unavailable unavailable accepts_all" "replicate 1001 65" "replicate 500 66"]
  by simp

section \<open>The paths of the pipeline\<close>

lemma post_daily_news_falsy:
  assumes "channel_found w" and "fetch_gaming_news w = (Return v, t)" and "\<not> truthy v"
  shows "post_daily_news w =
    (case send_raises w NewsChannel (Text fetch_failure_notice) of
       None \<Rightarrow>
         (Return (),
          Log INFO [Lit ''Fetching gaming news...''] # t
            @ [Sent NewsChannel (Text fetch_failure_notice)])
     | Some e \<Rightarrow>
         (case send_raises w NewsChannel (Text generic_error_notice) of
            None \<Rightarrow>
              (Return (),
               Log INFO [Lit ''Fetching gaming news...''] # t
                 @ [SendFailed NewsChannel (Text fetch_failure_notice),
                    Log ERROR [Lit ''Error posting daily news: '', ExnArg e],
                    Sent NewsChannel (Text generic_error_notice)])
          | Some e' \<Rightarrow>
              (Raise e',
               Log INFO [Lit ''Fetching gaming news...''] # t
                 @ [SendFailed NewsChannel (Text fetch_failure_notice),
                    Log ERROR [Lit ''Error posting daily news: '', ExnArg e],
                    SendFailed NewsChannel (Text generic_error_notice)])))"
  using assms by (simp add: post_daily_news_def send_def split: option.splits)

lemma post_daily_news_report:
  assumes "channel_found w" and "fetch_gaming_news w = (Return (Some n), t)" and "n \<noteq> []"
    and "fact_check_content w (Some n) = (Return (Some f), t')"
    and "create_news_embed w (Some n) (Some f) = (Return e, [])"
  shows "post_daily_news w =
    (case send_raises w NewsChannel (EmbedMsg e) of
       None \<Rightarrow>
         (Return (),
          Log INFO [Lit ''Fetching gaming news...''] # t
            @ Log INFO [Lit ''Fact-checking news content...''] # t'
            @ [Sent NewsChannel (EmbedMsg e),
               Log INFO [Lit ''Daily gaming news posted successfully'']])
     | Some x \<Rightarrow>
         (case send_raises w NewsChannel (Text generic_error_notice) of
            None \<Rightarrow>
              (Return (),
               Log INFO [Lit ''Fetching gaming news...''] # t
                 @ Log INFO [Lit ''Fact-checking news content...''] # t'
                 @ [SendFailed NewsChannel (EmbedMsg e),
                    Log ERROR [Lit ''Error posting daily news: '', ExnArg x],
                    Sent NewsChannel (Text generic_error_notice)])
          | Some x' \<Rightarrow>
              (Raise x',
               Log INFO [Lit ''Fetching gaming news...''] # t
                 @ Log INFO [Lit ''Fact-checking news content...''] # t'
                 @ [SendFailed NewsChannel (EmbedMsg e),
                    Log ERROR [Lit ''Error posting daily news: '', ExnArg x],
                    SendFailed NewsChannel (Text generic_error_notice)])))"
  using assms by (simp add: post_daily_news_def truthy_def send_def log_def split: option.splits)

lemma post_daily_news_null_check:
  assumes "channel_found w" and "fetch_gaming_news w = (Return (Some n), t)" and "n \<noteq> []"
    and "fact_check_content w (Some n) = (Return None, t')"
  shows "post_daily_news w =
    (case send_raises w NewsChannel (Text generic_error_notice) of
       None \<Rightarrow>
         (Return (),
          Log INFO [Lit ''Fetching gaming news...''] # t
            @ Log INFO [Lit ''Fact-checking news content...''] # t'
            @ [Log ERROR [Lit ''Error posting daily news: '', ExnArg TypeError],
               Sent NewsChannel (Text generic_error_notice)])
     | Some x' \<Rightarrow>
         (Raise x',
          Log INFO [Lit ''Fetching gaming news...''] # t
            @ Log INFO [Lit ''Fact-checking news content...''] # t'
            @ [Log ERROR [Lit ''Error posting daily news: '', ExnArg TypeError],
               SendFailed NewsChannel (Text generic_error_notice)]))"
  using assms
  by (simp add: post_daily_news_def truthy_def send_def log_def create_news_embed_None
      split: option.splits)

section \<open>Failure handling of the client\<close>

text \<open>
  C3, as the code has it: in the news call a status other than 200 logs the status code
  and returns \<open>None\<close>, and a failure of the transport (the POST raises, or the
  content cannot be read from the body) logs the error and returns \<open>None\<close>. In the
  fact-check call a status other than 200 returns the fixed string
  \<open>verification_unavailable\<close>, and a failure of the transport logs the error and
  returns the fixed string \<open>fact_check_unavailable\<close>. Neither call lets an exception
  reach its caller.
\<close>

theorem client_failure_handling:
  "(session_post w news_payload = Responds r1 \<and> status r1 \<noteq> 200 \<longrightarrow>
      fetch_gaming_news w =
        (Return None,
         [HttpPost news_payload, Log ERROR [Lit ''Perplexity API error: '', IntArg (status r1)]]))
   \<and> (session_post w news_payload = Fails e1
        \<or> session_post w news_payload = Responds r1 \<and> status r1 = 200 \<and> content r1 = Inl e1 \<longrightarrow>
      fetch_gaming_news w =
        (Return None,
         [HttpPost news_payload, Log ERROR [Lit ''Error fetching news: '', ExnArg e1]]))
   \<and> (session_post w (fact_check_payload c) = Responds r2 \<and> status r2 \<noteq> 200 \<longrightarrow>
      fst (fact_check_content w c) = Return (Some verification_unavailable))
   \<and> (session_post w (fact_check_payload c) = Fails e2
        \<or> session_post w (fact_check_payload c) = Responds r2 \<and> status r2 = 200
          \<and> content r2 = Inl e2 \<longrightarrow>
      fact_check_content w c =
        (Return (Some fact_check_unavailable),
         [HttpPost (fact_check_payload c), Log ERROR [Lit ''Error fact-checking: '', ExnArg e2]]))
   \<and> (\<exists>v. fst (fetch_gaming_news w) = Return v)
   \<and> (\<exists>v. fst (fact_check_content w c) = Return v)"
proof -
  have "\<exists>v. fst (fetch_gaming_news w) = Return v"
    using fetch_gaming_news_trace [of w] by auto
  moreover have "\<exists>v. fst (fact_check_content w c) = Return v"
    using fact_check_content_trace [of w c] by auto
  ultimately show ?thesis
    by (simp add: fetch_gaming_news_status fetch_gaming_news_fails fetch_gaming_news_malformed
        fact_check_content_status fact_check_content_fails fact_check_content_malformed)
qed

theorem client_failure_handling_witness:
  "fetch_gaming_news (test_world True unavailable (Fails TimeoutError) accepts_all) =
     (Return None, [HttpPost news_payload, Log ERROR [Lit ''Perplexity API error: '', IntArg 503]])
   \<and> fact_check_content (test_world True unavailable (Fails TimeoutError) accepts_all)
       (Some some_news) =
     (Return (Some fact_check_unavailable),
      [HttpPost (fact_check_payload (Some some_news)),
       Log ERROR [Lit ''Error fact-checking: '', ExnArg TimeoutError]])
   \<and> fetch_gaming_news (test_world True (Fails TimeoutError) unavailable accepts_all) =
     (Return None,
      [HttpPost news_payload, Log ERROR [Lit ''Error fetching news: '', ExnArg TimeoutError]])
   \<and> fst (fact_check_content (test_world True (Fails TimeoutError) unavailable accepts_all)
       (Some some_news)) = Return (Some verification_unavailable)"
  using
    client_failure_handling
      [of "test_world True unavailable (Fails TimeoutError) accepts_all"
        "\<lparr>status = 503, content = Inl ContentTypeError\<rparr>" TimeoutError "Some some_news"
        "\<lparr>status = 503, content = Inl ContentTypeError\<rparr>" TimeoutError]
    client_failure_handling
      [of "test_world True (Fails TimeoutError) unavailable accepts_all"
        "\<lparr>status = 503, content = Inl ContentTypeError\<rparr>" TimeoutError "Some some_news"
        "\<lparr>status = 503, content = Inl ContentTypeError\<rparr>" TimeoutError]
  by (simp add: unavailable_def)

theorem fact_check_status_counterexample:
  "fst (fact_check_content (test_world True (ok some_news) unavailable accepts_all)
     (Some some_news)) \<noteq> Return None"
  by (simp add: fact_check_content_status
      [where r = "\<lparr>status = 503, content = Inl ContentTypeError\<rparr>"] unavailable_def)

section \<open>The News Pipeline\<close>

text \<open>
  C6: when the destination channel does not resolve, the run logs the condition and
  returns at once: the log record is the only event, so that no message is sent and the
  completion endpoint is not called.
\<close>

theorem post_daily_news_no_channel:
  "\<not> channel_found w \<Longrightarrow>
   post_daily_news w = (Return (), [Log ERROR [Lit ''News channel not found'']])
   \<and> attempted (snd (post_daily_news w)) = []
   \<and> provider_calls (snd (post_daily_news w)) = []"
  by (simp add: post_daily_news_def log_def)

theorem post_daily_news_no_channel_witness:
  "\<not> channel_found (test_world False (ok some_news) (ok some_check) accepts_all)
   \<and> post_daily_news (test_world False (ok some_news) (ok some_check) accepts_all) =
       (Return (), [Log ERROR [Lit ''News channel not found'']])"
  using post_daily_news_no_channel [of "test_world False (ok some_news) (ok some_check) accepts_all"]
  by simp

text \<open>
  C1, as the code has it: when the news fetch succeeds and the fact-check call fails, the
  report is still built and handed to the channel, and body field 2 is one of two fixed
  strings: \<open>verification_unavailable\<close> after a status other than 200,
  \<open>fact_check_unavailable\<close> after a failure of the transport. The failure of the fact
  check does not abort the run: when the channel accepts the report, the report is the
  one message delivered and the run returns normally.
\<close>

theorem fact_check_failure_absorbed:
  assumes "channel_found w"
    and "fst (fetch_gaming_news w) = Return (Some news)" and "news \<noteq> []"
    and "session_post w (fact_check_payload (Some news)) = reply" and "failed reply"
  shows "\<exists>e rest.
     create_news_embed w (Some news)
       (Some (if non_200 reply then verification_unavailable else fact_check_unavailable))
       = (Return e, [])
     \<and> body_fields (EmbedMsg e) =
         [if length news \<le> 1000 then news else take 1000 news @ ascii ''...'',
          if non_200 reply then verification_unavailable else fact_check_unavailable]
     \<and> attempted (snd (post_daily_news w)) = EmbedMsg e # rest
     \<and> (send_raises w NewsChannel (EmbedMsg e) = None \<longrightarrow>
          fst (post_daily_news w) = Return ()
          \<and> delivered (snd (post_daily_news w)) = [EmbedMsg e])"
proof -
  let ?fb = "if non_200 reply then verification_unavailable else fact_check_unavailable"
  obtain v l where fetch: "fetch_gaming_news w = (Return v, HttpPost news_payload # l)"
    and l: "l = [] \<or> (\<exists>ps. l = [Log ERROR ps])"
    using fetch_gaming_news_trace by blast
  from fetch assms(2) have v: "v = Some news" by simp
  obtain l' where chk: "fact_check_content w (Some news) =
      (Return (Some ?fb), HttpPost (fact_check_payload (Some news)) # l')"
    and l': "l' = [] \<or> (\<exists>ps. l' = [Log ERROR ps])"
    using fact_check_content_failed [OF assms(4,5)] by blast
  obtain e where e: "create_news_embed w (Some news) (Some ?fb) = (Return e, [])"
    using create_news_embed_Some by blast
  note run = post_daily_news_report [OF assms(1) fetch [unfolded v] assms(3) chk e]
  have fields: "body_fields (EmbedMsg e) =
         [if length news \<le> 1000 then news else take 1000 news @ ascii ''...'', ?fb]"
    using create_news_embed_fields [OF e] by (simp split: if_splits)
  have "\<exists>rest. attempted (snd (post_daily_news w)) = EmbedMsg e # rest"
    using l l' by (auto simp add: run split: option.splits)
  then obtain rest where rest: "attempted (snd (post_daily_news w)) = EmbedMsg e # rest" ..
  have del: "send_raises w NewsChannel (EmbedMsg e) = None \<longrightarrow>
          fst (post_daily_news w) = Return ()
          \<and> delivered (snd (post_daily_news w)) = [EmbedMsg e]"
    using l l' by (auto simp add: run)
  show ?thesis
    by (intro exI [of _ e] exI [of _ rest] conjI) (rule e fields rest del)+
qed

theorem fact_check_failure_absorbed_witness:
  "\<exists>e. body_fields (EmbedMsg e) = [some_news, verification_unavailable]
     \<and> fst (post_daily_news (test_world True (ok some_news) unavailable accepts_all)) = Return ()
     \<and> delivered (snd (post_daily_news (test_world True (ok some_news) unavailable accepts_all)))
         = [EmbedMsg e]"
proof -
  let ?w = "test_world True (ok some_news) unavailable accepts_all"
  have h1: "channel_found ?w" by simp
  have h2: "fst (fetch_gaming_news ?w) = Return (Some some_news)" by simp
  have h3: "some_news \<noteq> []" by simp
  have h4: "session_post ?w (fact_check_payload (Some some_news)) = unavailable" by simp
  have h5: "failed unavailable" by (simp add: failed_def unavailable_def)
  have n: "non_200 unavailable" by (simp add: non_200_def unavailable_def)
  from fact_check_failure_absorbed [OF h1 h2 h3 h4 h5]
  show ?thesis by (auto simp add: n accepts_all_def)
qed

theorem single_fallback_counterexample:
  "concat (map body_fields
     (delivered (snd (post_daily_news (test_world True (ok some_news) unavailable accepts_all)))))
     = [some_news, verification_unavailable]
   \<and> concat (map body_fields
     (delivered (snd (post_daily_news
        (test_world True (ok some_news) (Fails TimeoutError) accepts_all)))))
     = [some_news, fact_check_unavailable]
   \<and> fact_check_unavailable \<noteq> verification_unavailable"
proof -
  let ?w1 = "test_world True (ok some_news) unavailable accepts_all"
  let ?w2 = "test_world True (ok some_news) (Fails TimeoutError) accepts_all"
  have c1: "fact_check_content ?w1 (Some some_news) =
      (Return (Some verification_unavailable), [HttpPost (fact_check_payload (Some some_news))])"
    by (simp add: fact_check_content_status
        [where r = "\<lparr>status = 503, content = Inl ContentTypeError\<rparr>"] unavailable_def)
  have c2: "fact_check_content ?w2 (Some some_news) =
      (Return (Some fact_check_unavailable),
       [HttpPost (fact_check_payload (Some some_news)),
        Log ERROR [Lit ''Error fact-checking: '', ExnArg TimeoutError]])"
    by (simp add: fact_check_content_fails)
  obtain e1 where e1: "create_news_embed ?w1 (Some some_news) (Some verification_unavailable)
      = (Return e1, [])"
    using create_news_embed_Some by blast
  obtain e2 where e2: "create_news_embed ?w2 (Some some_news) (Some fact_check_unavailable)
      = (Return e2, [])"
    using create_news_embed_Some by blast
  have "concat (map body_fields (delivered (snd (post_daily_news ?w1))))
      = [some_news, verification_unavailable]"
    using create_news_embed_fields [OF e1]
    by (simp add: post_daily_news_report [where t' = "[HttpPost (fact_check_payload (Some some_news))]", OF _ _ _ c1 e1]
        accepts_all_def)
  moreover have "concat (map body_fields (delivered (snd (post_daily_news ?w2))))
      = [some_news, fact_check_unavailable]"
    using create_news_embed_fields [OF e2]
    by (simp add: post_daily_news_report [OF _ _ _ c2 e2] accepts_all_def)
  ultimately show ?thesis using fallbacks_differ by simp
qed

text \<open>
  C4, as the code has it: when the news call returns \<open>None\<close>, the fetch-failure notice
  is the first message handed to the channel, no report is sent and the fact-check call
  is not made. When the channel accepts that notice it is the only message of the run;
  when the channel refuses it, the handler of the run hands over the generic error
  notice as well. At most one notice is delivered.
\<close>

theorem fetch_absent_run:
  assumes "channel_found w" and "fst (fetch_gaming_news w) = Return None"
  shows "provider_calls (snd (post_daily_news w)) = [news_payload]
     \<and> attempted (snd (post_daily_news w)) =
         (if send_raises w NewsChannel (Text fetch_failure_notice) = None
          then [Text fetch_failure_notice]
          else [Text fetch_failure_notice, Text generic_error_notice])
     \<and> (send_raises w NewsChannel (Text fetch_failure_notice) = None \<longrightarrow>
          post_daily_news w =
            (Return (),
             Log INFO [Lit ''Fetching gaming news...''] # snd (fetch_gaming_news w)
               @ [Sent NewsChannel (Text fetch_failure_notice)]))
     \<and> length (delivered (snd (post_daily_news w))) \<le> 1"
proof -
  obtain v l where fetch: "fetch_gaming_news w = (Return v, HttpPost news_payload # l)"
    and l: "l = [] \<or> (\<exists>ps. l = [Log ERROR ps])"
    using fetch_gaming_news_trace by blast
  from fetch assms(2) have "\<not> truthy v" by (simp add: truthy_def)
  note run = post_daily_news_falsy [OF assms(1) fetch this]
  show ?thesis using l by (auto simp add: run fetch split: option.splits)
qed

theorem fetch_absent_run_witness:
  "channel_found (test_world True unavailable unavailable accepts_all)
   \<and> fst (fetch_gaming_news (test_world True unavailable unavailable accepts_all)) = Return None
   \<and> provider_calls (snd (post_daily_news (test_world True unavailable unavailable accepts_all)))
       = [news_payload]
   \<and> attempted (snd (post_daily_news (test_world True unavailable unavailable accepts_all)))
       = [Text fetch_failure_notice]"
proof -
  let ?w = "test_world True unavailable unavailable accepts_all"
  have h1: "channel_found ?w" by simp
  have h2: "fst (fetch_gaming_news ?w) = Return None" by simp
  from fetch_absent_run [OF h1 h2] show ?thesis by (simp add: accepts_all_def)
qed

theorem fetch_absent_two_notices_counterexample:
  "attempted (snd (post_daily_news (test_world True unavailable unavailable refuses_all)))
     = [Text fetch_failure_notice, Text generic_error_notice]
   \<and> delivered (snd (post_daily_news (test_world True unavailable unavailable refuses_all))) = []"
  by (simp add: post_daily_news_falsy [where v = None, OF _ fetch_gaming_news_unavailable]
      truthy_def refuses_all_def)

text \<open>
  C10: an empty news text is treated as a missing one. A run whose news call returns the
  empty string and a run whose news call returns \<open>None\<close> continue in the same way after
  the call: same outcome, same events, the fetch-failure notice handed to the channel
  first, no fact-check call and no report.
\<close>

theorem empty_news_like_absent:
  assumes "channel_found w" and "fetch_gaming_news w = (Return (Some []), t)"
    and "channel_found w'" and "fetch_gaming_news w' = (Return None, t')"
    and "send_raises w' = send_raises w"
  shows "\<exists>rest.
       snd (post_daily_news w) = Log INFO [Lit ''Fetching gaming news...''] # t @ rest
     \<and> snd (post_daily_news w') = Log INFO [Lit ''Fetching gaming news...''] # t' @ rest
     \<and> fst (post_daily_news w) = fst (post_daily_news w')
     \<and> provider_calls rest = []
     \<and> attempted rest =
         (if send_raises w NewsChannel (Text fetch_failure_notice) = None
          then [Text fetch_failure_notice]
          else [Text fetch_failure_notice, Text generic_error_notice])
     \<and> provider_calls (snd (post_daily_news w)) = [news_payload]
     \<and> attempted (snd (post_daily_news w)) = attempted rest"
proof -
  obtain v l where "fetch_gaming_news w = (Return v, HttpPost news_payload # l)"
    and l: "l = [] \<or> (\<exists>ps. l = [Log ERROR ps])"
    using fetch_gaming_news_trace by blast
  with assms(2) have t: "t = HttpPost news_payload # l" by simp
  have "\<not> truthy (Some [])" and "\<not> truthy None" by (simp_all add: truthy_def)
  note run = post_daily_news_falsy [OF assms(1,2) this(1)]
    and run' = post_daily_news_falsy [OF assms(3,4) this(2)]
  show ?thesis using l by (auto simp add: run run' t assms(5) split: option.splits)
qed

theorem empty_news_like_absent_witness:
  "\<exists>rest.
     snd (post_daily_news (test_world True (ok []) (ok some_check) accepts_all)) =
       Log INFO [Lit ''Fetching gaming news...''] # [HttpPost news_payload] @ rest
   \<and> snd (post_daily_news (test_world True unavailable (ok some_check) accepts_all)) =
       Log INFO [Lit ''Fetching gaming news...'']
         # [HttpPost news_payload, Log ERROR [Lit ''Perplexity API error: '', IntArg 503]] @ rest
   \<and> attempted rest = [Text fetch_failure_notice]
   \<and> provider_calls (snd (post_daily_news (test_world True (ok []) (ok some_check) accepts_all)))
       = [news_payload]"
proof -
  let ?w = "test_world True (ok []) (ok some_check) accepts_all"
  let ?w' = "test_world True unavailable (ok some_check) accepts_all"
  have h1: "channel_found ?w" and h3: "channel_found ?w'" by simp_all
  have h2: "fetch_gaming_news ?w = (Return (Some []), [HttpPost news_payload])" by simp
  have h4: "fetch_gaming_news ?w' =
     (Return None, [HttpPost news_payload, Log ERROR [Lit ''Perplexity API error: '', IntArg 503]])"
    by simp
  have h5: "send_raises ?w' = send_raises ?w" by simp
  from empty_news_like_absent [OF h1 h2 h3 h4 h5]
  show ?thesis by (auto simp add: accepts_all_def)
qed

lemma fact_check_content_quiet:
  "\<exists>v t. fact_check_content w c = (Return v, t) \<and> attempted t = [] \<and> delivered t = []"
  using fact_check_content_trace [of w c] by auto

text \<open>
  C5, as the code has it: a run delivers at most one message to the channel. When the
  channel does not resolve, no message is sent. When the channel resolves and refuses
  nothing, exactly one message is sent and delivered: the report, the fetch-failure
  notice or the generic error notice.
\<close>

theorem one_message_per_run:
  "length (delivered (snd (post_daily_news w))) \<le> 1
   \<and> (\<not> channel_found w \<longrightarrow> attempted (snd (post_daily_news w)) = [])
   \<and> (channel_found w \<and> (\<forall>m. send_raises w NewsChannel m = None) \<longrightarrow>
        (\<exists>m. attempted (snd (post_daily_news w)) = [m]
           \<and> delivered (snd (post_daily_news w)) = [m]
           \<and> (m = Text fetch_failure_notice \<or> m = Text generic_error_notice
               \<or> (\<exists>e. m = EmbedMsg e))))"
proof (cases "channel_found w")
  case False
  then show ?thesis by (simp add: post_daily_news_def log_def)
next
  case True
  obtain v l where fetch: "fetch_gaming_news w = (Return v, HttpPost news_payload # l)"
    and l: "l = [] \<or> (\<exists>ps. l = [Log ERROR ps])"
    using fetch_gaming_news_trace by blast
  show ?thesis
  proof (cases "truthy v")
    case False
    note run = post_daily_news_falsy [OF True fetch False]
    show ?thesis using True l by (auto simp add: run split: option.splits)
  next
    case truthy: True
    then obtain n where v: "v = Some n" and n: "n \<noteq> []"
      by (cases v) (simp_all add: truthy_def)
    obtain fv t' where chk: "fact_check_content w (Some n) = (Return fv, t')"
      and t': "attempted t' = []" "delivered t' = []"
      using fact_check_content_quiet by blast
    show ?thesis
    proof (cases fv)
      case None
      note run = post_daily_news_null_check [OF True fetch [unfolded v] n chk [unfolded None]]
      show ?thesis using True l t' by (auto simp add: run split: option.splits)
    next
      case (Some f)
      obtain e where e: "create_news_embed w (Some n) (Some f) = (Return e, [])"
        using create_news_embed_Some by blast
      note run = post_daily_news_report [OF True fetch [unfolded v] n chk [unfolded Some] e]
      show ?thesis using True l t' by (auto simp add: run split: option.splits)
    qed
  qed
qed

theorem one_message_per_run_witness:
  "channel_found (test_world True (ok some_news) (ok some_check) accepts_all)
   \<and> (\<exists>m. attempted (snd (post_daily_news
             (test_world True (ok some_news) (ok some_check) accepts_all))) = [m]
        \<and> delivered (snd (post_daily_news
             (test_world True (ok some_news) (ok some_check) accepts_all))) = [m])
   \<and> \<not> channel_found (test_world False (ok some_news) (ok some_check) refuses_all)
   \<and> attempted (snd (post_daily_news
        (test_world False (ok some_news) (ok some_check) refuses_all))) = []"
  using one_message_per_run [of "test_world True (ok some_news) (ok some_check) accepts_all"]
    one_message_per_run [of "test_world False (ok some_news) (ok some_check) refuses_all"]
  by (auto simp add: accepts_all_def)

theorem no_channel_no_message_counterexample:
  "attempted (snd (post_daily_news
     (test_world False (ok some_news) (ok some_check) accepts_all))) = []
   \<and> delivered (snd (post_daily_news
     (test_world False (ok some_news) (ok some_check) accepts_all))) = []"
  by (simp add: post_daily_news_def log_def)

section \<open>The Command Dispatcher\<close>

text \<open>
  C7: when the invoker of the \<open>test\<close> command is not an administrator, the only thing
  the command does is to answer with the permission-denied notice: the pipeline is not
  run and the completion endpoint is not called.
\<close>

theorem test_news_denied:
  "\<not> administrator \<Longrightarrow>
   snd (test_news w administrator) =
     [if send_raises w Ctx (Text permission_denied_notice) = None
      then Sent Ctx (Text permission_denied_notice)
      else SendFailed Ctx (Text permission_denied_notice)]
   \<and> provider_calls (snd (test_news w administrator)) = []
   \<and> attempted (snd (test_news w administrator)) = []"
  by (auto simp add: test_news_def send_def split: option.splits)

theorem test_news_denied_witness:
  "\<not> False
   \<and> snd (test_news (test_world True (ok some_news) (ok some_check) accepts_all) False) =
       [Sent Ctx (Text permission_denied_notice)]
   \<and> provider_calls
       (snd (test_news (test_world True (ok some_news) (ok some_check) accepts_all) False)) = []"
  using test_news_denied [of False "test_world True (ok some_news) (ok some_check) accepts_all"]
  by (simp add: accepts_all_def)

section \<open>The Scheduler\<close>

lemma on_ready_Armed:
  "on_ready u g Armed =
     (Return Armed,
      [Log INFO [StrArg u, Lit '' has connected to Discord!''],
       Log INFO [Lit ''Bot is in '', IntArg (int g), Lit '' guilds'']])"
  by (simp add: on_ready_def is_running_def io_return_def)

lemma on_ready_Idle:
  "on_ready u g Idle =
     (Return Armed,
      [Log INFO [StrArg u, Lit '' has connected to Discord!''],
       Log INFO [Lit ''Bot is in '', IntArg (int g), Lit '' guilds''],
       StartTask,
       Log INFO [Lit ''Daily gaming news task started'']])"
  by (simp add: on_ready_def is_running_def start_def io_return_def)

lemma ready_signals_Armed:
  "\<exists>t. ready_signals u g n Armed = (Return Armed, t) \<and> count_list t StartTask = 0"
proof (induction n)
  case 0
  then show ?case by (simp add: io_return_def)
next
  case (Suc n)
  then obtain t where "ready_signals u g n Armed = (Return Armed, t)"
    and "count_list t StartTask = 0" by blast
  then show ?case by (simp add: on_ready_Armed)
qed

text \<open>
  C8: the handler of the connection-ready signal starts the daily task only when it is
  not running. Invoked when the scheduler is already Armed it leaves the state as it is
  and starts nothing; from any state it ends Armed, a second invocation changes nothing
  more, and however often the signal arrives the task is started at most once.
\<close>

theorem on_ready_idempotent:
  "(is_running s \<longrightarrow>
      on_ready u g s =
        (Return s,
         [Log INFO [StrArg u, Lit '' has connected to Discord!''],
          Log INFO [Lit ''Bot is in '', IntArg (int g), Lit '' guilds'']]))
   \<and> fst (on_ready u g s) = Return Armed
   \<and> fst (io_bind (on_ready u g s) (on_ready u g)) = fst (on_ready u g s)
   \<and> (\<exists>s'. fst (ready_signals u g n s) = Return s')
   \<and> count_list (snd (ready_signals u g n s)) StartTask \<le> 1"
proof -
  obtain t where armed: "ready_signals u g n Armed = (Return Armed, t)"
    and t: "count_list t StartTask = 0"
    using ready_signals_Armed by blast
  show ?thesis
  proof (cases s)
    case Armed
    then show ?thesis using armed t by (simp add: on_ready_Armed is_running_def)
  next
    case Idle
    show ?thesis
    proof (cases n)
      case 0
      then show ?thesis using Idle
        by (simp add: on_ready_Idle on_ready_Armed is_running_def io_return_def)
    next
      case (Suc k)
      obtain t' where "ready_signals u g k Armed = (Return Armed, t')"
        and "count_list t' StartTask = 0"
        using ready_signals_Armed by blast
      then show ?thesis using Idle Suc
        by (simp add: on_ready_Idle on_ready_Armed is_running_def)
    qed
  qed
qed

theorem on_ready_idempotent_witness:
  "is_running Armed
   \<and> on_ready (ascii ''NewsBot#0001'') 2 Armed =
       (Return Armed,
        [Log INFO [StrArg (ascii ''NewsBot#0001''), Lit '' has connected to Discord!''],
         Log INFO [Lit ''Bot is in '', IntArg 2, Lit '' guilds'']])
   \<and> count_list (snd (ready_signals (ascii ''NewsBot#0001'') 2 3 Idle)) StartTask \<le> 1"
  using on_ready_idempotent [of Armed "ascii ''NewsBot#0001''" 2 3]
    on_ready_idempotent [of Idle "ascii ''NewsBot#0001''" 2 3]
  by (simp add: is_running_def)

lemma fire_second_bound: "h < 24 \<Longrightarrow> m < 60 \<Longrightarrow> fire_second h m < 86400"
  by (simp add: fire_second_def)

lemma next_occurrence:
  fixes D fs now :: nat
  assumes "fs < D"
  defines "t \<equiv> (if now < now div D * D + fs then now div D * D + fs else now div D * D + fs + D)"
  shows "now < t" and "t mod D = fs"
    and "t div D = now div D \<or> t div D = now div D + 1"
    and "now < t' \<Longrightarrow> t' mod D = fs \<Longrightarrow> t \<le> t'"
proof -
  have D: "0 < D" using assms(1) by simp
  have upper: "now < now div D * D + D"
    using D by (metis add.commute dividend_less_div_times)
  show "now < t" using upper assms(1) by (simp add: t_def)
  show "t mod D = fs" using assms(1) by (simp add: t_def)
  show "t div D = now div D \<or> t div D = now div D + 1"
    using assms(1) D by (simp add: t_def)
  show "t \<le> t'" if gt: "now < t'" and md: "t' mod D = fs"
  proof -
    have t': "t' = t' div D * D + fs" using md by (metis div_mult_mod_eq)
    have le: "now div D \<le> t' div D" using gt by (simp add: div_le_mono)
    show ?thesis
    proof (cases "now < now div D * D + fs")
      case True
      have "now div D * D \<le> t' div D * D" using le by (rule mult_le_mono1)
      then have "now div D * D + fs \<le> t' div D * D + fs" by simp
      then show ?thesis using True t' by (simp add: t_def)
    next
      case False
      have "now div D \<noteq> t' div D"
      proof
        assume "now div D = t' div D"
        then have "t' = now div D * D + fs" using t' by simp
        then show False using False gt by simp
      qed
      then have "now div D + 1 \<le> t' div D" using le by simp
      then have "(now div D + 1) * D \<le> t' div D * D" by (rule mult_le_mono1)
      then have "now div D * D + fs + D \<le> t' div D * D + fs" by (simp add: algebra_simps)
      then show ?thesis using False t' by (simp add: t_def)
    qed
  qed
qed

text \<open>
  C9: while the scheduler is Armed, \<open>next_fire\<close> is a timestamp strictly after the time
  of evaluation that falls on the configured hour:minute, today or tomorrow, and no
  earlier timestamp after the time of evaluation falls on that hour:minute. With the
  fire time 09:00 and an evaluation at 14:00 it is 09:00 of the following day.
\<close>

theorem next_fire_future:
  assumes "h < 24" and "m < 60"
  shows "(\<exists>t. next_fire h m Armed now = Some t
       \<and> now < t
       \<and> t mod 86400 = fire_second h m
       \<and> (t div 86400 = now div 86400 \<or> t div 86400 = now div 86400 + 1)
       \<and> (\<forall>t'. now < t' \<and> t' mod 86400 = fire_second h m \<longrightarrow> t \<le> t'))
     \<and> next_fire 9 0 Armed (d * 86400 + 14 * 3600) = Some ((d + 1) * 86400 + 9 * 3600)"
proof -
  let ?fs = "fire_second h m"
  let ?t = "if now < now div 86400 * 86400 + ?fs then now div 86400 * 86400 + ?fs
            else now div 86400 * 86400 + ?fs + 86400"
  have fs: "?fs < 86400" using assms by (rule fire_second_bound)
  have nf: "next_fire h m Armed now = Some ?t"
    by (simp add: next_fire_def Let_def)
  have scen: "next_fire 9 0 Armed (d * 86400 + 14 * 3600) = Some ((d + 1) * 86400 + 9 * 3600)"
    by (simp add: next_fire_def fire_second_def Let_def)
  have least: "\<forall>t'. now < t' \<and> t' mod 86400 = ?fs \<longrightarrow> ?t \<le> t'"
    using next_occurrence(4) [OF fs, of now] by blast
  show ?thesis
    by (intro exI [of _ ?t] conjI)
      (rule nf next_occurrence(1) [OF fs] next_occurrence(2) [OF fs] next_occurrence(3) [OF fs]
        least scen)+
qed

theorem next_fire_future_witness:
  "(9::nat) < 24 \<and> (0::nat) < 60
   \<and> (\<exists>t. next_fire 9 0 Armed (20000 * 86400 + 8 * 3600) = Some t
        \<and> 20000 * 86400 + 8 * 3600 < t \<and> t mod 86400 = 9 * 3600)
   \<and> next_fire 9 0 Armed (20000 * 86400 + 14 * 3600) = Some (20001 * 86400 + 9 * 3600)"
proof -
  have h: "(9::nat) < 24" and m: "(0::nat) < 60" by simp_all
  from next_fire_future [OF h m, of "20000 * 86400 + 8 * 3600" 20000]
  show ?thesis by (auto simp add: fire_second_def)
qed

end
